theory Spec2Isabelle
  imports Main "HOL-Library.AList" "HOL-Library.Sublist"
begin

section \<open>JavaScript values\<close>

text \<open>
  The values the consent manager handles are strings, booleans and whatever
  \<^verbatim>\<open>JSON.parse\<close> returns.  Numbers are restricted to integers: the program only ever
  tests a number for truthiness.  \<open>None\<close> of type \<open>json option\<close> is \<^verbatim>\<open>undefined\<close>;
  \<open>None\<close> of type \<open>string option\<close> is the \<^verbatim>\<open>null\<close> of \<^verbatim>\<open>getCookie\<close>, which like the empty
  string is falsy.
  Strings are lists of characters; the program inspects only the ASCII characters
  space, \<open>;\<close> and \<open>=\<close>, which are single units in every encoding.
\<close>

datatype json =
    JNull
  | JBool bool
  | JNum int
  | JString string
  | JArray "json list"
  | JObject "(string \<times> json) list"

type_synonym obj = "(string \<times> json) list"

text \<open>JavaScript truthiness (\<^verbatim>\<open>if (x)\<close>, \<^verbatim>\<open>x || y\<close>).\<close>

fun ToBoolean :: "json option \<Rightarrow> bool" where
  "ToBoolean None = False"
| "ToBoolean (Some JNull) = False"
| "ToBoolean (Some (JBool b)) = b"
| "ToBoolean (Some (JNum n)) = (n \<noteq> 0)"
| "ToBoolean (Some (JString s)) = (s \<noteq> [])"
| "ToBoolean (Some (JArray xs)) = True"
| "ToBoolean (Some (JObject kvs)) = True"

text \<open>Property read \<^verbatim>\<open>o[k]\<close> and property write \<^verbatim>\<open>o[k] = v\<close> on a plain object.\<close>

definition obj_get :: "obj \<Rightarrow> string \<Rightarrow> json option" where
  "obj_get ob k = map_of ob k"

definition obj_put :: "string \<Rightarrow> json \<Rightarrow> obj \<Rightarrow> obj" where
  "obj_put k v ob = AList.update k v ob"

text \<open>Decimal rendering of an array index, as a property key.\<close>

fun index_key :: "nat \<Rightarrow> string" where
  "index_key n =
     (if n < 10 then [''0123456789'' ! n]
      else index_key (n div 10) @ [''0123456789'' ! (n mod 10)])"

text \<open>
  The own enumerable properties that an object spread \<^verbatim>\<open>{...v}\<close> copies: the entries
  of an object, the indexed elements of an array, the indexed characters of a string,
  nothing for \<^verbatim>\<open>null\<close>, booleans and numbers.
\<close>

fun own_entries :: "json \<Rightarrow> obj" where
  "own_entries (JObject kvs) = kvs"
| "own_entries (JArray xs) = zip (map index_key [0..<length xs]) xs"
| "own_entries (JString s) = zip (map index_key [0..<length s]) (map (\<lambda>c. JString [c]) s)"
| "own_entries JNull = []"
| "own_entries (JBool b) = []"
| "own_entries (JNum n) = []"

text \<open>\<^verbatim>\<open>{ ...base, ...v }\<close>: later entries overwrite earlier ones with the same key.\<close>

definition obj_spread :: "obj \<Rightarrow> json \<Rightarrow> obj" where
  "obj_spread base v = fold (\<lambda>(k, x) ob. obj_put k x ob) (own_entries v) base"

section \<open>The platform\<close>

text \<open>
  What the browser supplies and the program only calls: the clock, the page's location
  and title, the date formatters, the JSON codec, the optional global \<^verbatim>\<open>gtag\<close>, the
  date parser of the cookie store and the CSS parser.  They are parameters; every theorem
  below holds for each choice of them.  \<open>JSON_parse\<close> returns \<open>None\<close> where \<^verbatim>\<open>JSON.parse\<close>
  throws.  \<open>css_font_size\<close> returns \<open>None\<close> for a text that is not a font size, and otherwise
  the text the style declaration reads back as.
\<close>

record env =
  now :: int
  protocol :: string
  pathname :: string
  title :: string
  gtag_defined :: bool
  toUTCString :: "int \<Rightarrow> string"
  toISOString :: "int \<Rightarrow> string"
  JSON_parse :: "string \<Rightarrow> json option"
  JSON_stringify :: "json \<Rightarrow> string"
  cookie_date :: "string \<Rightarrow> int option"
  css_font_size :: "string \<Rightarrow> string option"

section \<open>Cookie store adapter\<close>

subsection \<open>The cookie record that \<^verbatim>\<open>setCookie\<close> builds\<close>

text \<open>
  \<^verbatim>\<open>setCookie(name, value, days, secure = true, sameSite = 'Strict')\<close>, lines 4 to 21.
  \<open>days = None\<close> is an absent argument; \<^verbatim>\<open>if (days)\<close> is a truthiness test, so the number
  \<open>0\<close> takes the same branch as an absent argument.
\<close>

definition cookieString :: "env \<Rightarrow> string \<Rightarrow> string \<Rightarrow> int option \<Rightarrow> bool \<Rightarrow> string \<Rightarrow> string" where
  "cookieString env name val days secure sameSite =
     (let expires =
            (case days of
               None \<Rightarrow> []
             | Some d \<Rightarrow>
                 if d \<noteq> 0
                 then ''; expires='' @ toUTCString env (now env + d * 24 * 60 * 60 * 1000)
                 else []);
          s1 = name @ ''='' @ (if val \<noteq> [] then val else []) @ expires @ ''; path=/'';
          s2 = (if secure \<and> protocol env = ''https:'' then s1 @ ''; Secure'' else s1)
      in s2 @ ''; SameSite='' @ sameSite)"

subsection \<open>The browser's cookie jar\<close>

text \<open>
  The jar behind \<^verbatim>\<open>document.cookie\<close>, for one document and the path \<open>/\<close>: the live
  cookies that scripts can see, in creation order.  A string is a list of bytes, so
  lengths are counted in octets.

  Reading \<^verbatim>\<open>document.cookie\<close> yields the cookies joined by \<open>; \<close>, each as \<open>name=value\<close>,
  or as the bare value when its name is empty.

  Assigning a string follows the parsing and storage rules that browsers implement
  (RFC 6265, sections 5.2 and 5.3, with the rules of its revision).  A string that
  contains a control character other than a tab is ignored.  The text before the first
  \<open>;\<close> is the pair: with an \<open>=\<close> it is split at the first one, without it the name is
  empty and the pair is the value; both halves are trimmed of spaces and tabs.  The
  string is ignored when name and value are both empty, when together they are longer
  than 4096 octets, when a nameless value starts with one of the prefixes \<open>__Secure-\<close>
  and \<open>__Host-\<close>, or when the name starts with one of these prefixes (in any case of the
  letters) without what the prefix demands: a \<open>Secure\<close> attribute on a page served over
  https, and for \<open>__Host-\<close> also a \<open>Path\<close> of \<open>/\<close> and no \<open>Domain\<close>.  An \<open>expires\<close>
  attribute (the last one that parses) whose date is not in the future removes the cookie
  of that name; otherwise the cookie replaces the one of the same name in place, or is
  appended.

  Cookies of other paths and domains, \<open>HttpOnly\<close> cookies, \<open>Max-Age\<close>, the length limit
  of an attribute and the \<open>Secure\<close> and \<open>SameSite\<close> policies on cookies without a prefix
  are outside this model; called with arguments free of \<open>;\<close>, the adapter writes no
  cookie that they would change.
\<close>

type_synonym jar = "(string \<times> string) list"

definition cookie_pair :: "string \<times> string \<Rightarrow> string" where
  "cookie_pair c = (case c of (n, v) \<Rightarrow> if n = [] then v else n @ ''='' @ v)"

fun document_cookie_get :: "jar \<Rightarrow> string" where
  "document_cookie_get [] = []"
| "document_cookie_get [c] = cookie_pair c"
| "document_cookie_get (c # d # cs) = cookie_pair c @ ''; '' @ document_cookie_get (d # cs)"

definition is_WSP :: "char \<Rightarrow> bool" where
  "is_WSP c = (c = CHR '' '' \<or> c = CHR 0x09)"

definition is_CTL :: "char \<Rightarrow> bool" where
  "is_CTL c = (let n = (of_char c :: nat) in n \<le> 8 \<or> (10 \<le> n \<and> n \<le> 31) \<or> n = 127)"

definition trim_WSP :: "string \<Rightarrow> string" where
  "trim_WSP s = rev (dropWhile is_WSP (rev (dropWhile is_WSP s)))"

definition ascii_lower :: "char \<Rightarrow> char" where
  "ascii_lower c =
     (let n = (of_char c :: nat) in if 65 \<le> n \<and> n \<le> 90 then char_of (n + 32) else c)"

text \<open>\<^verbatim>\<open>String.prototype.split\<close> with a one-character separator.\<close>

fun split_on :: "char \<Rightarrow> string \<Rightarrow> string list" where
  "split_on d [] = [[]]"
| "split_on d (c # cs) =
     (if c = d then [] # split_on d cs
      else (case split_on d cs of
              [] \<Rightarrow> [[c]]
            | x # xs \<Rightarrow> (c # x) # xs))"

definition attr_name :: "string \<Rightarrow> string" where
  "attr_name a = map ascii_lower (trim_WSP (takeWhile (\<lambda>c. c \<noteq> CHR ''='') a))"

definition attr_value :: "string \<Rightarrow> string" where
  "attr_value a = trim_WSP (drop 1 (dropWhile (\<lambda>c. c \<noteq> CHR ''='') a))"

fun cookie_expiry :: "env \<Rightarrow> string list \<Rightarrow> int option" where
  "cookie_expiry env [] = None"
| "cookie_expiry env (a # as) =
     (case cookie_expiry env as of
        Some t \<Rightarrow> Some t
      | None \<Rightarrow> if attr_name a = ''expires'' then cookie_date env (attr_value a) else None)"

definition has_attr :: "string \<Rightarrow> string list \<Rightarrow> bool" where
  "has_attr nm attrs = list_ex (\<lambda>a. attr_name a = nm) attrs"

text \<open>The value of the last attribute of the given name.\<close>

fun last_attr :: "string \<Rightarrow> string list \<Rightarrow> string option" where
  "last_attr nm [] = None"
| "last_attr nm (a # as) =
     (case last_attr nm as of
        Some v \<Rightarrow> Some v
      | None \<Rightarrow> if attr_name a = nm then Some (attr_value a) else None)"

definition secure_prefixed :: "string \<Rightarrow> bool" where
  "secure_prefixed s = prefix ''__secure-'' (map ascii_lower s)"

definition host_prefixed :: "string \<Rightarrow> bool" where
  "host_prefixed s = prefix ''__host-'' (map ascii_lower s)"

definition prefix_satisfied :: "env \<Rightarrow> string \<Rightarrow> string list \<Rightarrow> bool" where
  "prefix_satisfied env name attrs =
     (let secure = (has_attr ''secure'' attrs \<and> protocol env = ''https:'')
      in if host_prefixed name
         then secure \<and> last_attr ''path'' attrs = Some ''/'' \<and> \<not> has_attr ''domain'' attrs
         else if secure_prefixed name then secure
         else True)"

definition cookie_name_of :: "string \<Rightarrow> string" where
  "cookie_name_of s =
     (let pair = takeWhile (\<lambda>c. c \<noteq> CHR '';'') s
      in if CHR ''='' \<in> set pair then trim_WSP (takeWhile (\<lambda>c. c \<noteq> CHR ''='') pair) else [])"

definition cookie_value_of :: "string \<Rightarrow> string" where
  "cookie_value_of s =
     (let pair = takeWhile (\<lambda>c. c \<noteq> CHR '';'') s
      in if CHR ''='' \<in> set pair then trim_WSP (drop 1 (dropWhile (\<lambda>c. c \<noteq> CHR ''='') pair))
         else trim_WSP pair)"

definition document_cookie_set :: "env \<Rightarrow> string \<Rightarrow> jar \<Rightarrow> jar" where
  "document_cookie_set env s jar =
     (let name = cookie_name_of s;
          val = cookie_value_of s;
          attrs = tl (split_on CHR '';'' s)
      in if list_ex is_CTL s then jar
         else if name = [] \<and> val = [] then jar
         else if 4096 < length name + length val then jar
         else if name = [] \<and> (secure_prefixed val \<or> host_prefixed val) then jar
         else if \<not> prefix_satisfied env name attrs then jar
         else
           (case cookie_expiry env attrs of
              Some t \<Rightarrow>
                if t \<le> now env then AList.delete name jar
                else AList.update name val jar
            | None \<Rightarrow> AList.update name val jar))"

subsection \<open>The adapter's three functions\<close>

definition setCookie :: "env \<Rightarrow> string \<Rightarrow> string \<Rightarrow> int option \<Rightarrow> bool \<Rightarrow> string \<Rightarrow> jar \<Rightarrow> jar" where
  "setCookie env name val days secure sameSite jar =
     document_cookie_set env (cookieString env name val days secure sameSite) jar"

text \<open>
  \<^verbatim>\<open>while (c.charAt(0) === ' ') c = c.substring(1, c.length)\<close>: only U+0020 is removed.
\<close>

fun strip_spaces :: "string \<Rightarrow> string" where
  "strip_spaces [] = []"
| "strip_spaces (c # cs) = (if c = CHR '' '' then strip_spaces cs else c # cs)"

text \<open>
  The \<^verbatim>\<open>for\<close> loop of \<^verbatim>\<open>getCookie\<close> over the segments; \<^verbatim>\<open>c.indexOf(nameEQ) === 0\<close> says
  that \<open>nameEQ\<close> is a prefix of \<open>c\<close>.  \<open>None\<close> is \<^verbatim>\<open>null\<close>.
\<close>

fun getCookie_loop :: "string \<Rightarrow> string list \<Rightarrow> string option" where
  "getCookie_loop nameEQ [] = None"
| "getCookie_loop nameEQ (c # ca) =
     (let c' = strip_spaces c
      in if prefix nameEQ c' then Some (drop (length nameEQ) c')
         else getCookie_loop nameEQ ca)"

definition getCookie :: "string \<Rightarrow> string \<Rightarrow> string option" where
  "getCookie name document_cookie =
     getCookie_loop (name @ ''='') (split_on CHR '';'' document_cookie)"


section \<open>The document\<close>

text \<open>
  The part of the DOM the program touches.  An element has the three properties the
  program reads or writes: \<^verbatim>\<open>style.display\<close>, \<^verbatim>\<open>checked\<close> and \<^verbatim>\<open>value\<close>.  It is either a
  \<^verbatim>\<open>select\<close>, with the values of its options, or an element of which \<^verbatim>\<open>value\<close> is a plain
  property.  \<open>elements\<close> is \<^verbatim>\<open>document.getElementById\<close>: \<open>None\<close> is \<^verbatim>\<open>null\<close>.  \<open>html_lang\<close> is
  \<^verbatim>\<open>document.documentElement.lang\<close>, and \<open>html_style_fontSize\<close> is what
  \<^verbatim>\<open>document.documentElement.style.fontSize\<close> reads as: the font size of the inline style,
  or the empty string when it declares none.  The console and the calls made to
  \<^verbatim>\<open>gtag\<close> are kept as lists, oldest first; \<open>listeners\<close> are the registered handlers.
  The document has a body and lets scripts use \<^verbatim>\<open>document.cookie\<close>; \<^verbatim>\<open>gtag\<close>, where it
  exists, is a function that returns.
\<close>

datatype exn = TypeError | InvalidCharacterError | SyntaxError

record element =
  display :: string
  checked :: bool
  el_value :: string
  el_options :: "string list option"

text \<open>
  \<^verbatim>\<open>el.value = v\<close>.  On a \<^verbatim>\<open>select\<close> the first option of that value becomes the selected
  one; when there is none, no option is selected and \<^verbatim>\<open>value\<close> reads as the empty string.
\<close>

definition assign_value :: "string \<Rightarrow> element \<Rightarrow> element" where
  "assign_value v el =
     (case el_options el of
        None \<Rightarrow> el\<lparr>el_value := v\<rparr>
      | Some opts \<Rightarrow> el\<lparr>el_value := (if v \<in> set opts then v else [])\<rparr>)"

text \<open>
  \<^verbatim>\<open>style.fontSize = v\<close>.  The empty string removes the declaration; a text that is not a
  font size is dropped and the declaration stays as it was.
\<close>

definition assign_fontSize :: "env \<Rightarrow> string \<Rightarrow> string \<Rightarrow> string" where
  "assign_fontSize env v old =
     (if v = [] then []
      else (case css_font_size env v of Some w \<Rightarrow> w | None \<Rightarrow> old))"

datatype console_entry = Log string "json list" | Warn string

datatype handler =
  OnAcceptAll | OnRejectAll | OnOpenSettings | OnSavePreferences | OnCloseModal | OnThemeChange

record page =
  cookies :: jar
  elements :: "string \<Rightarrow> element option"
  body_className :: string
  html_lang :: string
  html_style_fontSize :: string
  console :: "console_entry list"
  gtag_calls :: "json list list"
  listeners :: "(string \<times> string \<times> handler) list"

text \<open>The controller object: the document together with the fields of \<^verbatim>\<open>this\<close>.\<close>

record state = page +
  consentGiven :: bool
  preferences :: obj

text \<open>
  A method returns the state it leaves behind and the exception it threw, if any: the
  effects made before a \<^verbatim>\<open>throw\<close> stay.
\<close>

type_synonym outcome = "exn option \<times> state"

definition lift :: "(state \<Rightarrow> state) \<Rightarrow> state \<Rightarrow> outcome" where
  "lift f st = (None, f st)"

definition seq :: "(state \<Rightarrow> outcome) \<Rightarrow> (state \<Rightarrow> outcome) \<Rightarrow> state \<Rightarrow> outcome" where
  "seq f g st = (case f st of (None, st') \<Rightarrow> g st' | (Some e, st') \<Rightarrow> (Some e, st'))"

subsection \<open>\<^verbatim>\<open>className.replace(/\w*-theme/g, '')\<close>\<close>

text \<open>
  At each position the greedy \<open>\w*\<close> takes the whole run of word characters; since
  \<open>-\<close> is not a word character, the pattern matches there exactly when \<open>-theme\<close>
  follows the run.  A match is removed and the scan goes on behind it; otherwise the
  character stays and the scan moves one position on.
\<close>

definition is_word_char :: "char \<Rightarrow> bool" where
  "is_word_char c =
     (let n = (of_char c :: nat)
      in (48 \<le> n \<and> n \<le> 57) \<or> (65 \<le> n \<and> n \<le> 90) \<or> n = 95 \<or> (97 \<le> n \<and> n \<le> 122))"

function remove_theme_classes :: "string \<Rightarrow> string" where
  "remove_theme_classes [] = []"
| "remove_theme_classes (c # cs) =
     (let rest = dropWhile is_word_char (c # cs)
      in if prefix ''-theme'' rest then remove_theme_classes (drop 6 rest)
         else c # remove_theme_classes cs)"
  by pat_completeness auto
termination
proof (relation "measure length", goal_cases)
  case 1
  show ?case by simp
next
  case (2 c cs rest)
  have "length (dropWhile is_word_char (c # cs)) \<le> length (c # cs)"
    by (rule length_dropWhile_le)
  moreover from 2(2) have "rest \<noteq> []"
    by auto
  ultimately show ?case
    using 2 by (cases rest) (auto simp del: dropWhile.simps)
next
  case (3 c cs rest)
  show ?case by simp
qed

subsection \<open>\<^verbatim>\<open>classList.add\<close>\<close>

text \<open>
  The DOM's \<^verbatim>\<open>DOMTokenList.add\<close>: an empty token throws a \<^verbatim>\<open>SyntaxError\<close>, a token with
  ASCII whitespace an \<^verbatim>\<open>InvalidCharacterError\<close>; otherwise the token joins the ordered
  set parsed from the attribute, which is written back joined by single spaces.
\<close>

definition is_ascii_whitespace :: "char \<Rightarrow> bool" where
  "is_ascii_whitespace c =
     (c = CHR 0x09 \<or> c = CHR 0x0A \<or> c = CHR 0x0C \<or> c = CHR 0x0D \<or> c = CHR '' '')"

fun split_tokens :: "string \<Rightarrow> string \<Rightarrow> string list" where
  "split_tokens cur [] = (if cur = [] then [] else [cur])"
| "split_tokens cur (c # cs) =
     (if is_ascii_whitespace c
      then (if cur = [] then split_tokens [] cs else cur # split_tokens [] cs)
      else split_tokens (cur @ [c]) cs)"

definition class_tokens :: "string \<Rightarrow> string list" where
  "class_tokens className = rev (remdups (rev (split_tokens [] className)))"

fun serialize_tokens :: "string list \<Rightarrow> string" where
  "serialize_tokens [] = []"
| "serialize_tokens [t] = t"
| "serialize_tokens (t # u # ts) = t @ '' '' @ serialize_tokens (u # ts)"

definition classList_add :: "string \<Rightarrow> string \<Rightarrow> exn + string" where
  "classList_add token className =
     (if token = [] then Inl SyntaxError
      else if list_ex is_ascii_whitespace token then Inl InvalidCharacterError
      else
        let ts = class_tokens className
        in Inr (serialize_tokens (if token \<in> set ts then ts else ts @ [token])))"

section \<open>Consent controller\<close>

abbreviation NECESSARY :: string where "NECESSARY \<equiv> ''necessary''"
abbreviation FUNCTIONAL :: string where "FUNCTIONAL \<equiv> ''functional''"
abbreviation ANALYTICS :: string where "ANALYTICS \<equiv> ''analytics''"
abbreviation MARKETING :: string where "MARKETING \<equiv> ''marketing''"

definition flag :: "state \<Rightarrow> string \<Rightarrow> bool" where
  "flag st category = ToBoolean (obj_get (preferences st) category)"

definition read_cookie :: "state \<Rightarrow> string \<Rightarrow> string option" where
  "read_cookie st name = getCookie name (document_cookie_get (cookies st))"

definition write_cookie :: "env \<Rightarrow> string \<Rightarrow> string \<Rightarrow> int option \<Rightarrow> state \<Rightarrow> state" where
  "write_cookie env name val days st =
     st\<lparr>cookies := setCookie env name val days True ''Strict'' (cookies st)\<rparr>"

definition console_log :: "string \<Rightarrow> json list \<Rightarrow> state \<Rightarrow> state" where
  "console_log msg args st = st\<lparr>console := console st @ [Log msg args]\<rparr>"

definition set_display :: "string \<Rightarrow> string \<Rightarrow> state \<Rightarrow> state" where
  "set_display ident v st =
     (case elements st ident of
        Some el \<Rightarrow> st\<lparr>elements := (elements st)(ident \<mapsto> el\<lparr>display := v\<rparr>)\<rparr>
      | None \<Rightarrow> st)"

definition showConsentBanner :: "state \<Rightarrow> state" where
  "showConsentBanner st = set_display ''cookie-banner'' ''block'' st"

definition hideConsentBanner :: "state \<Rightarrow> state" where
  "hideConsentBanner st = set_display ''cookie-banner'' ''none'' st"

definition closeSettingsModal :: "state \<Rightarrow> state" where
  "closeSettingsModal st = set_display ''cookie-settings-modal'' ''none'' st"

definition saveConsent :: "env \<Rightarrow> state \<Rightarrow> state" where
  "saveConsent env st =
     (let st1 = write_cookie env ''cookie_consent'' ''given'' (Some 365) st;
          st2 = write_cookie env ''cookie_preferences''
                  (JSON_stringify env (JObject (preferences st1))) (Some 365) st1
      in st2\<lparr>consentGiven := True\<rparr>)"

text \<open>The \<^verbatim>\<open>try\<close>/\<^verbatim>\<open>catch\<close> of \<^verbatim>\<open>loadPreferences\<close> is the case split on the parser's result.\<close>

definition loadPreferences :: "env \<Rightarrow> state \<Rightarrow> state" where
  "loadPreferences env st =
     (case read_cookie st ''cookie_preferences'' of
        None \<Rightarrow> st
      | Some prefs \<Rightarrow>
          if prefs = [] then st
          else
            (case JSON_parse env prefs of
               Some parsed \<Rightarrow> st\<lparr>preferences := obj_spread (preferences st) parsed\<rparr>
             | None \<Rightarrow> st\<lparr>console := console st @ [Warn ''Failed to parse cookie preferences'']\<rparr>))"

definition applyTheme :: "string \<Rightarrow> state \<Rightarrow> outcome" where
  "applyTheme theme st =
     (let st1 = st\<lparr>body_className := remove_theme_classes (body_className st)\<rparr>
      in case classList_add (theme @ ''-theme'') (body_className st1) of
           Inl e \<Rightarrow> (Some e, st1)
         | Inr cn \<Rightarrow>
             (let st2 = st1\<lparr>body_className := cn\<rparr>
              in case elements st2 ''theme-selector'' of
                   Some sel \<Rightarrow>
                     (None, st2\<lparr>elements := (elements st2)(''theme-selector'' \<mapsto> assign_value theme sel)\<rparr>)
                 | None \<Rightarrow> (None, st2)))"

definition saveTheme :: "env \<Rightarrow> string \<Rightarrow> state \<Rightarrow> outcome" where
  "saveTheme env theme st =
     (if flag st FUNCTIONAL
      then seq (lift (write_cookie env ''site_theme'' theme (Some 365))) (applyTheme theme) st
      else (None, st))"

definition setLanguage :: "env \<Rightarrow> string \<Rightarrow> state \<Rightarrow> state" where
  "setLanguage env lang st =
     (if flag st FUNCTIONAL
      then (write_cookie env ''preferred_language'' lang (Some 365) st)\<lparr>html_lang := lang\<rparr>
      else st)"

definition setFontSize :: "env \<Rightarrow> string \<Rightarrow> state \<Rightarrow> state" where
  "setFontSize env size' st =
     (if flag st FUNCTIONAL
      then (write_cookie env ''font_size'' size' (Some 365) st)
             \<lparr>html_style_fontSize := assign_fontSize env size' (html_style_fontSize st)\<rparr>
      else st)"

definition loadUserPreferences :: "env \<Rightarrow> state \<Rightarrow> state" where
  "loadUserPreferences env st =
     (let st1 = (case read_cookie st ''preferred_language'' of
                   Some language \<Rightarrow> if language \<noteq> [] then setLanguage env language st else st
                 | None \<Rightarrow> st)
      in case read_cookie st1 ''font_size'' of
           Some fontSize \<Rightarrow> if fontSize \<noteq> [] then setFontSize env fontSize st1 else st1
         | None \<Rightarrow> st1)"

definition enableFunctionalCookies :: "env \<Rightarrow> state \<Rightarrow> outcome" where
  "enableFunctionalCookies env st =
     (let st1 = console_log ''Functional cookies enabled'' [] st
      in seq (\<lambda>s. case read_cookie s ''site_theme'' of
                     Some savedTheme \<Rightarrow>
                       if savedTheme \<noteq> [] then applyTheme savedTheme s else (None, s)
                   | None \<Rightarrow> (None, s))
             (lift (loadUserPreferences env)) st1)"

definition gtag :: "env \<Rightarrow> json list \<Rightarrow> state \<Rightarrow> state" where
  "gtag env args st =
     (if gtag_defined env then st\<lparr>gtag_calls := gtag_calls st @ [args]\<rparr> else st)"

definition trackPageView :: "env \<Rightarrow> state \<Rightarrow> state" where
  "trackPageView env st =
     (if flag st ANALYTICS
      then console_log ''Page view tracked:''
             [JObject [(''page'', JString (pathname env)),
                       (''title'', JString (title env)),
                       (''timestamp'', JString (toISOString env (now env)))]] st
      else st)"

definition enableAnalytics :: "env \<Rightarrow> state \<Rightarrow> state" where
  "enableAnalytics env st =
     trackPageView env
       (gtag env [JString ''consent'', JString ''update'',
                  JObject [(''analytics_storage'', JString ''granted'')]]
          (console_log ''Analytics cookies enabled'' [] st))"

definition enableMarketing :: "env \<Rightarrow> state \<Rightarrow> state" where
  "enableMarketing env st =
     gtag env [JString ''consent'', JString ''update'',
               JObject [(''ad_storage'', JString ''granted'')]]
       (console_log ''Marketing cookies enabled'' [] st)"

definition applyCookieSettings :: "env \<Rightarrow> state \<Rightarrow> outcome" where
  "applyCookieSettings env =
     seq (\<lambda>st. if flag st FUNCTIONAL then enableFunctionalCookies env st else (None, st))
       (seq (\<lambda>st. if flag st ANALYTICS then (None, enableAnalytics env st) else (None, st))
            (\<lambda>st. if flag st MARKETING then (None, enableMarketing env st) else (None, st)))"

definition acceptAll :: "env \<Rightarrow> state \<Rightarrow> outcome" where
  "acceptAll env st =
     seq (lift (saveConsent env))
       (seq (applyCookieSettings env) (lift hideConsentBanner))
       (st\<lparr>preferences :=
             [(NECESSARY, JBool True), (FUNCTIONAL, JBool True),
              (ANALYTICS, JBool True), (MARKETING, JBool True)]\<rparr>)"

definition rejectAll :: "env \<Rightarrow> state \<Rightarrow> outcome" where
  "rejectAll env st =
     seq (lift (saveConsent env))
       (seq (applyCookieSettings env) (lift hideConsentBanner))
       (st\<lparr>preferences :=
             [(NECESSARY, JBool True), (FUNCTIONAL, JBool False),
              (ANALYTICS, JBool False), (MARKETING, JBool False)]\<rparr>)"

text \<open>\<^verbatim>\<open>document.getElementById(id)?.checked || false\<close>.\<close>

definition checked_or_false :: "state \<Rightarrow> string \<Rightarrow> bool" where
  "checked_or_false st ident = (case elements st ident of Some el \<Rightarrow> checked el | None \<Rightarrow> False)"

definition saveCustomPreferences :: "env \<Rightarrow> state \<Rightarrow> outcome" where
  "saveCustomPreferences env st =
     (let p1 = obj_put FUNCTIONAL (JBool (checked_or_false st ''functional-cookies'')) (preferences st);
          p2 = obj_put ANALYTICS (JBool (checked_or_false st ''analytics-cookies'')) p1;
          p3 = obj_put MARKETING (JBool (checked_or_false st ''marketing-cookies'')) p2
      in seq (lift (saveConsent env))
           (seq (applyCookieSettings env)
              (seq (lift hideConsentBanner) (lift closeSettingsModal)))
           (st\<lparr>preferences := p3\<rparr>))"

definition trackEvent :: "env \<Rightarrow> string \<Rightarrow> json option \<Rightarrow> state \<Rightarrow> state" where
  "trackEvent env eventName eventData st =
     (let dat = (case eventData of None \<Rightarrow> JObject [] | Some d \<Rightarrow> d)
      in if flag st ANALYTICS
         then gtag env [JString ''event'', JString eventName, dat]
                (console_log ''Event tracked:'' [JString eventName, dat] st)
         else st)"

text \<open>
  \<^verbatim>\<open>openSettingsModal\<close> assigns to \<^verbatim>\<open>.checked\<close> of each checkbox with no guard: on a
  missing checkbox the assignment to a property of \<^verbatim>\<open>null\<close> throws a \<^verbatim>\<open>TypeError\<close>.
\<close>

definition set_checked :: "string \<Rightarrow> bool \<Rightarrow> state \<Rightarrow> outcome" where
  "set_checked ident b st =
     (case elements st ident of
        None \<Rightarrow> (Some TypeError, st)
      | Some el \<Rightarrow> (None, st\<lparr>elements := (elements st)(ident \<mapsto> el\<lparr>checked := b\<rparr>)\<rparr>))"

definition openSettingsModal :: "state \<Rightarrow> outcome" where
  "openSettingsModal st =
     (case elements st ''cookie-settings-modal'' of
        None \<Rightarrow> (None, st)
      | Some modal \<Rightarrow>
          seq (\<lambda>s. set_checked ''functional-cookies'' (flag s FUNCTIONAL) s)
            (seq (\<lambda>s. set_checked ''analytics-cookies'' (flag s ANALYTICS) s)
               (seq (\<lambda>s. set_checked ''marketing-cookies'' (flag s MARKETING) s)
                  (lift (set_display ''cookie-settings-modal'' ''block'')))) st)"

text \<open>\<^verbatim>\<open>document.getElementById(id)?.addEventListener(event, handler)\<close>.\<close>

definition addEventListener :: "string \<Rightarrow> string \<Rightarrow> handler \<Rightarrow> state \<Rightarrow> state" where
  "addEventListener ident event h st =
     (case elements st ident of
        Some el \<Rightarrow> st\<lparr>listeners := listeners st @ [(ident, event, h)]\<rparr>
      | None \<Rightarrow> st)"

definition setupEventListeners :: "state \<Rightarrow> state" where
  "setupEventListeners st =
     addEventListener ''theme-selector'' ''change'' OnThemeChange
       (addEventListener ''close-cookie-modal'' ''click'' OnCloseModal
          (addEventListener ''save-cookie-preferences'' ''click'' OnSavePreferences
             (addEventListener ''cookie-settings-btn'' ''click'' OnOpenSettings
                (addEventListener ''reject-all-cookies'' ''click'' OnRejectAll
                   (addEventListener ''accept-all-cookies'' ''click'' OnAcceptAll st)))))"

definition init :: "env \<Rightarrow> state \<Rightarrow> outcome" where
  "init env st =
     seq (\<lambda>s. case read_cookie s ''cookie_consent'' of
                 Some consent \<Rightarrow>
                   if consent \<noteq> []
                   then applyCookieSettings env (loadPreferences env (s\<lparr>consentGiven := True\<rparr>))
                   else (None, showConsentBanner s)
               | None \<Rightarrow> (None, showConsentBanner s))
         (lift setupEventListeners) st"

definition default_preferences :: obj where
  "default_preferences =
     [(NECESSARY, JBool True), (FUNCTIONAL, JBool False),
      (ANALYTICS, JBool False), (MARKETING, JBool False)]"

definition new_controller :: "page \<Rightarrow> state" where
  "new_controller p =
     \<lparr>cookies = cookies p, elements = elements p, body_className = body_className p,
      html_lang = html_lang p, html_style_fontSize = html_style_fontSize p,
      console = console p, gtag_calls = gtag_calls p, listeners = listeners p,
      consentGiven = False, preferences = default_preferences\<rparr>"


definition CookieConsent_new :: "env \<Rightarrow> page \<Rightarrow> outcome" where
  "CookieConsent_new env p = init env (new_controller p)"

section \<open>Globals\<close>

text \<open>
  \<^verbatim>\<open>window.cookieConsent\<close> is undefined until the \<^verbatim>\<open>DOMContentLoaded\<close> handler has run the
  constructor to its end; a constructor that throws leaves it undefined.
\<close>

datatype window = NoController page | Controller state


fun window_trackEvent :: "env \<Rightarrow> string \<Rightarrow> json option \<Rightarrow> window \<Rightarrow> window" where
  "window_trackEvent env eventName eventData (NoController p) = NoController p"
| "window_trackEvent env eventName eventData (Controller st) =
     Controller (trackEvent env eventName eventData st)"

text \<open>\<^verbatim>\<open>window.saveUserPreference(key, value, days = 365)\<close>.\<close>

fun window_saveUserPreference :: "env \<Rightarrow> string \<Rightarrow> string \<Rightarrow> int option \<Rightarrow> window \<Rightarrow> window" where
  "window_saveUserPreference env key val days (NoController p) = NoController p"
| "window_saveUserPreference env key val days (Controller st) =
     (if flag st FUNCTIONAL
      then Controller (write_cookie env key val (Some (case days of None \<Rightarrow> 365 | Some d \<Rightarrow> d)) st)
      else Controller st)"

section \<open>Notions used to state the properties\<close>

subsection \<open>Segments of the cookie header\<close>

text \<open>
  The reading of \<^verbatim>\<open>getCookie\<close> in terms of names: a segment, once its leading spaces are
  removed, has the name that stands before its first \<open>=\<close> and the value that stands
  behind it.  \<open>first_named_value\<close> is the value of the first segment with the given name.
\<close>

definition segment_has_name :: "string \<Rightarrow> string \<Rightarrow> bool" where
  "segment_has_name name seg =
     (let s = strip_spaces seg
      in CHR ''='' \<in> set s \<and> takeWhile (\<lambda>c. c \<noteq> CHR ''='') s = name)"

definition segment_value :: "string \<Rightarrow> string" where
  "segment_value seg = drop 1 (dropWhile (\<lambda>c. c \<noteq> CHR ''='') (strip_spaces seg))"

definition first_named_value :: "string \<Rightarrow> string \<Rightarrow> string option" where
  "first_named_value name header =
     (case filter (segment_has_name name) (split_on CHR '';'' header) of
        [] \<Rightarrow> None
      | seg # rest \<Rightarrow> Some (segment_value seg))"

text \<open>
  Percent-decoding of ASCII escapes, as \<^verbatim>\<open>decodeURIComponent\<close> does it: what a decoded
  cookie value would be.  The program never calls it.
\<close>

definition hex_value :: "char \<Rightarrow> nat option" where
  "hex_value c =
     (let n = (of_char c :: nat)
      in if 48 \<le> n \<and> n \<le> 57 then Some (n - 48)
         else if 65 \<le> n \<and> n \<le> 70 then Some (n - 55)
         else if 97 \<le> n \<and> n \<le> 102 then Some (n - 87)
         else None)"

fun percent_decode :: "string \<Rightarrow> string" where
  "percent_decode (c # h # l # cs) =
     (if c = CHR ''%''
      then (case (hex_value h, hex_value l) of
              (Some a, Some b) \<Rightarrow> char_of (16 * a + b) # percent_decode cs
            | _ \<Rightarrow> c # percent_decode (h # l # cs))
      else c # percent_decode (h # l # cs))"
| "percent_decode cs = cs"

subsection \<open>Attributes of a cookie record\<close>

text \<open>
  The attributes of a cookie record are its segments after the first \<open>;\<close>; the record
  has an expiration when one of them is named \<open>expires\<close>.
\<close>

definition cookie_attributes :: "string \<Rightarrow> string list" where
  "cookie_attributes s = tl (split_on CHR '';'' s)"

definition has_expires :: "string \<Rightarrow> bool" where
  "has_expires s = list_ex (\<lambda>a. attr_name a = ''expires'') (cookie_attributes s)"

definition expires_part :: "env \<Rightarrow> int option \<Rightarrow> string" where
  "expires_part env days =
     (case days of
        None \<Rightarrow> []
      | Some d \<Rightarrow>
          if d \<noteq> 0 then ''; expires='' @ toUTCString env (now env + d * 86400000) else [])"

definition secure_part :: "env \<Rightarrow> bool \<Rightarrow> string" where
  "secure_part env secure = (if secure \<and> protocol env = ''https:'' then ''; Secure'' else [])"

text \<open>The record of a cookie that expires 365 days from now.\<close>

definition cookie_record_365 :: "env \<Rightarrow> string \<Rightarrow> string \<Rightarrow> string" where
  "cookie_record_365 env name val =
     name @ ''='' @ val @ ''; expires='' @ toUTCString env (now env + 365 * 86400000) @
     ''; path=/'' @ (if protocol env = ''https:'' then ''; Secure'' else []) @ ''; SameSite=Strict''"

subsection \<open>Cookies in the jar\<close>








subsection \<open>Observing the enable routines\<close>

text \<open>
  Each enable routine starts by logging a message of its own, which nothing else logs:
  the console entries a run adds tell which routines it entered.
\<close>

definition new_log :: "state \<Rightarrow> state \<Rightarrow> console_entry list" where
  "new_log st st' = drop (length (console st)) (console st')"

abbreviation functional_enabled :: console_entry where
  "functional_enabled \<equiv> Log ''Functional cookies enabled'' []"

abbreviation analytics_enabled :: console_entry where
  "analytics_enabled \<equiv> Log ''Analytics cookies enabled'' []"

abbreviation marketing_enabled :: console_entry where
  "marketing_enabled \<equiv> Log ''Marketing cookies enabled'' []"

definition page_view :: "env \<Rightarrow> console_entry" where
  "page_view env =
     Log ''Page view tracked:''
       [JObject [(''page'', JString (pathname env)), (''title'', JString (title env)),
                 (''timestamp'', JString (toISOString env (now env)))]]"

text \<open>The stored theme, if any, is one that \<^verbatim>\<open>classList.add\<close> accepts.\<close>

definition stored_theme_applies :: "state \<Rightarrow> bool" where
  "stored_theme_applies st =
     (case read_cookie st ''site_theme'' of
        None \<Rightarrow> True
      | Some t \<Rightarrow> \<not> list_ex is_ascii_whitespace t)"

text \<open>The \<^verbatim>\<open>eventData = {}\<close> default of \<^verbatim>\<open>trackEvent\<close>.\<close>

definition event_data :: "json option \<Rightarrow> json" where
  "event_data eventData = (case eventData of None \<Rightarrow> JObject [] | Some d \<Rightarrow> d)"

subsection \<open>Example pages\<close>

text \<open>
  A concrete platform and a few pages, for evaluating the program.  The platform
  functions are finite fragments of the browser's, correct at the arguments listed:
  on 3 November 2026, 07:10:00 UTC, over https.
\<close>

definition necessary_false_json :: string where
  \<open>necessary_false_json = ''{"necessary":false}''\<close>

definition all_accepted_json :: string where
  \<open>all_accepted_json =
     ''{"necessary":true,"functional":true,"analytics":true,"marketing":true}''\<close>

definition all_rejected_json :: string where
  \<open>all_rejected_json =
     ''{"necessary":true,"functional":false,"analytics":false,"marketing":false}''\<close>

definition all_accepted :: obj where
  "all_accepted =
     [(NECESSARY, JBool True), (FUNCTIONAL, JBool True),
      (ANALYTICS, JBool True), (MARKETING, JBool True)]"

definition example_env :: env where
  "example_env =
     \<lparr>now = 1793689800000,
      protocol = ''https:'',
      pathname = ''/index.html'',
      title = ''Pane e Pasta'',
      gtag_defined = True,
      toUTCString = (\<lambda>t. if t = 1825225800000 then ''Wed, 03 Nov 2027 07:10:00 GMT'' else []),
      toISOString = (\<lambda>t. if t = 1793689800000 then ''2026-11-03T07:10:00.000Z'' else []),
      JSON_parse =
        (\<lambda>s. if s = necessary_false_json then Some (JObject [(NECESSARY, JBool False)])
             else if s = all_accepted_json then Some (JObject all_accepted)
             else if s = all_rejected_json then Some (JObject default_preferences)
             else None),
      JSON_stringify =
        (\<lambda>v. if v = JObject all_accepted then all_accepted_json
             else if v = JObject default_preferences then all_rejected_json
             else []),
      cookie_date =
        (\<lambda>s. if s = ''Wed, 03 Nov 2027 07:10:00 GMT'' then Some 1825225800000
             else if s = ''Thu, 01 Jan 1970 00:00:01 GMT'' then Some 1000
             else None),
      css_font_size =
        (\<lambda>s. if s = ''18px'' then Some ''18px''
             else if s = ''1.50EM'' then Some ''1.5em''
             else None)\<rparr>"



definition empty_page :: page where
  "empty_page =
     \<lparr>cookies = [], elements = Map.empty, body_className = [], html_lang = [],
      html_style_fontSize = [], console = [], gtag_calls = [], listeners = []\<rparr>"

text \<open>Consent given, and a stored preference object that switches \<open>necessary\<close> off.\<close>

definition tampered_page :: page where
  "tampered_page =
     empty_page\<lparr>cookies := [(''cookie_consent'', ''given''),
                              (''cookie_preferences'', necessary_false_json)]\<rparr>"


text \<open>A document that has the settings modal and none of its three checkboxes.\<close>

definition modal_without_checkboxes :: state where
  "modal_without_checkboxes =
     (new_controller empty_page)
       \<lparr>elements :=
          [''cookie-settings-modal'' \<mapsto>
             \<lparr>display = ''none'', checked = False, el_value = [], el_options = None\<rparr>]\<rparr>"

definition functional_only :: state where
  "functional_only =
     (new_controller empty_page)
       \<lparr>preferences := [(NECESSARY, JBool True), (FUNCTIONAL, JBool True),
                         (ANALYTICS, JBool False), (MARKETING, JBool False)]\<rparr>"

definition analytics_only :: state where
  "analytics_only =
     (new_controller empty_page)
       \<lparr>preferences := [(NECESSARY, JBool True), (FUNCTIONAL, JBool False),
                         (ANALYTICS, JBool True), (MARKETING, JBool False)]\<rparr>"

text \<open>A fresh controller on a page whose stored theme contains a space.\<close>

definition spaced_theme_stored :: state where
  "spaced_theme_stored =
     (new_controller empty_page)\<lparr>cookies := [(''site_theme'', ''solar flare'')]\<rparr>"

section \<open>Properties of the cookie store adapter\<close>

subsection \<open>Splitting at a separator\<close>

lemma split_on_nonempty: "split_on d s \<noteq> []"
  by (induction s) (auto split: list.splits)

lemma split_on_no_sep: "d \<notin> set a \<Longrightarrow> split_on d a = [a]"
  by (induction a) auto

lemma split_on_append_sep: "d \<notin> set a \<Longrightarrow> split_on d (a @ d # r) = a # split_on d r"
  by (induction a) auto

lemma hd_split_on: "hd (split_on d s) = takeWhile (\<lambda>c. c \<noteq> d) s"
  using split_on_nonempty[of d] by (induction s) (auto split: list.splits)

subsection \<open>\<^verbatim>\<open>getCookie\<close> finds the first segment of the given name\<close>

lemma prefix_name_eq_iff:
  assumes "CHR ''='' \<notin> set name"
  shows "prefix (name @ ''='') s \<longleftrightarrow>
         (CHR ''='' \<in> set s \<and> takeWhile (\<lambda>c. c \<noteq> CHR ''='') s = name)"
proof
  assume "prefix (name @ ''='') s"
  then obtain r where s: "s = name @ CHR ''='' # r"
    by (auto simp: prefix_def)
  with assms show "CHR ''='' \<in> set s \<and> takeWhile (\<lambda>c. c \<noteq> CHR ''='') s = name"
    by (auto simp: takeWhile_tail)
next
  assume a: "CHR ''='' \<in> set s \<and> takeWhile (\<lambda>c. c \<noteq> CHR ''='') s = name"
  then have "dropWhile (\<lambda>c. c \<noteq> CHR ''='') s \<noteq> []"
    by auto
  then obtain r where d: "dropWhile (\<lambda>c. c \<noteq> CHR ''='') s = CHR ''='' # r"
    using hd_dropWhile[of "\<lambda>c. c \<noteq> CHR ''=''" s]
    by (cases "dropWhile (\<lambda>c. c \<noteq> CHR ''='') s") auto
  have "s = takeWhile (\<lambda>c. c \<noteq> CHR ''='') s @ dropWhile (\<lambda>c. c \<noteq> CHR ''='') s"
    by simp
  with a d have "s = name @ CHR ''='' # r"
    by simp
  then show "prefix (name @ ''='') s"
    by (simp add: prefix_def)
qed

lemma drop_name_eq:
  assumes "CHR ''='' \<notin> set name" and "prefix (name @ ''='') s"
  shows "drop (length (name @ ''='')) s = drop 1 (dropWhile (\<lambda>c. c \<noteq> CHR ''='') s)"
proof -
  from assms(2) obtain r where s: "s = name @ CHR ''='' # r"
    by (auto simp: prefix_def)
  with assms(1) have "dropWhile (\<lambda>c. c \<noteq> CHR ''='') s = CHR ''='' # r"
    by (auto simp: dropWhile_append3)
  with s show ?thesis by simp
qed

lemma getCookie_loop_filter:
  assumes "CHR ''='' \<notin> set name"
  shows "getCookie_loop (name @ ''='') segs =
         (case filter (segment_has_name name) segs of
            [] \<Rightarrow> None
          | seg # rest \<Rightarrow> Some (segment_value seg))"
proof (induction segs)
  case Nil
  show ?case by simp
next
  case (Cons c ca)
  show ?case
  proof (cases "prefix (name @ ''='') (strip_spaces c)")
    case True
    then have "segment_has_name name c"
      using prefix_name_eq_iff[OF assms] by (simp add: segment_has_name_def Let_def)
    with True show ?thesis
      using drop_name_eq[OF assms True] by (simp add: segment_value_def)
  next
    case False
    then have "\<not> segment_has_name name c"
      using prefix_name_eq_iff[OF assms] by (simp add: segment_has_name_def Let_def)
    with False Cons show ?thesis by simp
  qed
qed

text \<open>
  Claim C5, as the code has it.  For every name free of \<open>=\<close> and every header string,
  \<^verbatim>\<open>getCookie(name)\<close> returns the value of the first \<open>;\<close>-separated segment whose name,
  read after the segment's leading spaces (U+0020, no other whitespace) and up to its
  first \<open>=\<close>, equals the argument exactly; it returns \<^verbatim>\<open>null\<close> when there is no such
  segment.  The value is the raw text behind the first \<open>=\<close>: nothing is decoded.
\<close>

theorem getCookie_first_exact_match:
  "CHR ''='' \<notin> set name \<Longrightarrow> getCookie name header = first_named_value name header"
  by (simp add: getCookie_def first_named_value_def getCookie_loop_filter)

theorem getCookie_first_exact_match_witness:
  "CHR ''='' \<notin> set ''theme'' \<and>
   getCookie ''theme'' ''themes=9;  theme=dark; Theme=x; theme=light'' =
     first_named_value ''theme'' ''themes=9;  theme=dark; Theme=x; theme=light'' \<and>
   first_named_value ''theme'' ''themes=9;  theme=dark; Theme=x; theme=light'' = Some ''dark''"
proof -
  have h: "CHR ''='' \<notin> set ''theme''"
    by simp
  have c: "getCookie ''theme'' ''themes=9;  theme=dark; Theme=x; theme=light'' =
     first_named_value ''theme'' ''themes=9;  theme=dark; Theme=x; theme=light''"
    by (rule getCookie_first_exact_match[OF h])
  have v: "first_named_value ''theme'' ''themes=9;  theme=dark; Theme=x; theme=light'' = Some ''dark''"
    by code_simp
  show ?thesis
    by (intro conjI h c v)
qed

text \<open>
  The claim speaks of the decoded value: on a percent-encoded value \<^verbatim>\<open>getCookie\<close> returns
  the encoded text, not its decoding.  It speaks of arbitrary leading whitespace: a
  segment that starts with a tab is not found.
\<close>

theorem getCookie_returns_raw_value:
  "getCookie ''lang'' ''lang=en%2DGB'' = Some ''en%2DGB'' \<and>
   percent_decode ''en%2DGB'' = ''en-GB'' \<and>
   getCookie ''lang'' ''lang=en%2DGB'' \<noteq> Some (percent_decode ''en%2DGB'') \<and>
   getCookie ''lang'' (''theme=dark;'' @ [CHR 0x09] @ ''lang=en'') = None"
  by code_simp

subsection \<open>The expiration attribute\<close>

lemma attr_name_expires: "attr_name ('' expires='' @ r) = ''expires''"
  by (simp add: attr_name_def trim_WSP_def is_WSP_def ascii_lower_def)

lemma attr_name_samesite: "attr_name ('' SameSite='' @ r) \<noteq> ''expires''"
  by (simp add: attr_name_def trim_WSP_def is_WSP_def ascii_lower_def)

lemma attr_name_path: "attr_name '' path=/'' \<noteq> ''expires''"
  by (simp add: attr_name_def trim_WSP_def is_WSP_def ascii_lower_def)

lemma attr_name_secure: "attr_name '' Secure'' \<noteq> ''expires''"
  by (simp add: attr_name_def trim_WSP_def is_WSP_def ascii_lower_def)

lemma cookieString_parts:
  "cookieString env name val days secure sameSite =
     name @ ''='' @ val @ expires_part env days @ ''; path=/'' @ secure_part env secure @
     ''; SameSite='' @ sameSite"
  by (simp add: cookieString_def expires_part_def secure_part_def Let_def mult.commute
      split: option.splits)

lemma cookieString_attributes_session:
  assumes "CHR '';'' \<notin> set name" "CHR '';'' \<notin> set val" "CHR '';'' \<notin> set sameSite"
    and "days = None \<or> days = Some 0"
  shows "cookie_attributes (cookieString env name val days secure sameSite) =
         ['' path=/''] @ (if secure \<and> protocol env = ''https:'' then ['' Secure''] else []) @
         ['' SameSite='' @ sameSite]"
proof -
  have pair: "CHR '';'' \<notin> set (name @ ''='' @ val)"
    using assms by simp
  have e: "expires_part env days = []"
    using assms(4) by (auto simp: expires_part_def)
  have "cookieString env name val days secure sameSite =
        (name @ ''='' @ val) @ CHR '';'' # ('' path=/'' @ secure_part env secure @
           ''; SameSite='' @ sameSite)"
    by (simp add: cookieString_parts e)
  then have "cookie_attributes (cookieString env name val days secure sameSite) =
        split_on CHR '';'' ('' path=/'' @ secure_part env secure @ ''; SameSite='' @ sameSite)"
    using split_on_append_sep[OF pair] by (simp add: cookie_attributes_def)
  also have "\<dots> = ['' path=/''] @ (if secure \<and> protocol env = ''https:'' then ['' Secure''] else []) @
         ['' SameSite='' @ sameSite]"
    using assms(3) split_on_no_sep[of "CHR '';''" sameSite]
    by (simp add: secure_part_def split_on_nonempty split: list.splits)
  finally show ?thesis .
qed

lemma cookieString_attributes_expiring:
  assumes "CHR '';'' \<notin> set name" "CHR '';'' \<notin> set val" "days = Some d" "d \<noteq> 0"
  shows "\<exists>r rest. cookie_attributes (cookieString env name val days secure sameSite) =
           ('' expires='' @ r) # rest"
proof -
  define tl' where "tl' = toUTCString env (now env + d * 86400000) @ ''; path=/'' @
     secure_part env secure @ ''; SameSite='' @ sameSite"
  have pair: "CHR '';'' \<notin> set (name @ ''='' @ val)"
    using assms by simp
  have c: "cookieString env name val days secure sameSite =
        (name @ ''='' @ val) @ CHR '';'' # ('' expires='' @ tl')"
    using assms(3,4) by (simp add: cookieString_parts expires_part_def tl'_def)
  have "hd (split_on CHR '';'' ('' expires='' @ tl')) =
        '' expires='' @ takeWhile (\<lambda>c. c \<noteq> CHR '';'') tl'"
    by (subst hd_split_on) simp
  then obtain rest where "split_on CHR '';'' ('' expires='' @ tl') =
        ('' expires='' @ takeWhile (\<lambda>c. c \<noteq> CHR '';'') tl') # rest"
    using split_on_nonempty[of "CHR '';''" "'' expires='' @ tl'"]
    by (cases "split_on CHR '';'' ('' expires='' @ tl')") auto
  with c have "cookie_attributes (cookieString env name val days secure sameSite) =
        ('' expires='' @ takeWhile (\<lambda>c. c \<noteq> CHR '';'') tl') # rest"
    using split_on_append_sep[OF pair] by (simp add: cookie_attributes_def)
  then show ?thesis by blast
qed

lemma cookieString_has_expires_iff:
  assumes "CHR '';'' \<notin> set name" "CHR '';'' \<notin> set val" "CHR '';'' \<notin> set sameSite"
  shows "has_expires (cookieString env name val days secure sameSite) \<longleftrightarrow>
         (\<exists>d. days = Some d \<and> d \<noteq> 0)"
proof (cases "\<exists>d. days = Some d \<and> d \<noteq> 0")
  case True
  then obtain d where "days = Some d" "d \<noteq> 0" by blast
  from cookieString_attributes_expiring[OF assms(1,2) this]
  obtain r rest where "cookie_attributes (cookieString env name val days secure sameSite) =
           ('' expires='' @ r) # rest" by blast
  with True show ?thesis
    using attr_name_expires[of r] by (simp add: has_expires_def del: append.simps)
next
  case False
  then have "days = None \<or> days = Some 0"
    by (cases days) auto
  from cookieString_attributes_session[OF assms this] False show ?thesis
    using attr_name_samesite[of sameSite] attr_name_path attr_name_secure
    by (simp add: has_expires_def del: append.simps)
qed

text \<open>
  Claim C9, as the code has it.  \<^verbatim>\<open>setCookie\<close> assigns the record it builds to
  \<^verbatim>\<open>document.cookie\<close>, and for a name, a value and a same-site policy free of \<open>;\<close> that
  record has an \<open>expires\<close> attribute if and only if \<^verbatim>\<open>days\<close> is supplied and is not
  zero: the test is \<^verbatim>\<open>if (days)\<close>, so an absent \<^verbatim>\<open>days\<close> and the number 0 both give a
  session cookie.
\<close>

theorem setCookie_expires_iff_days_truthy:
  assumes "CHR '';'' \<notin> set name" "CHR '';'' \<notin> set val" "CHR '';'' \<notin> set sameSite"
  shows "setCookie env name val days secure sameSite jar =
           document_cookie_set env (cookieString env name val days secure sameSite) jar \<and>
         (has_expires (cookieString env name val days secure sameSite) \<longleftrightarrow>
            (\<exists>d. days = Some d \<and> d \<noteq> 0))"
  using cookieString_has_expires_iff[OF assms] by (simp add: setCookie_def)

theorem setCookie_expires_iff_days_truthy_witness:
  "CHR '';'' \<notin> set ''site_theme'' \<and> CHR '';'' \<notin> set ''dark'' \<and> CHR '';'' \<notin> set ''Strict'' \<and>
   has_expires (cookieString example_env ''site_theme'' ''dark'' (Some 365) True ''Strict'') \<and>
   \<not> has_expires (cookieString example_env ''site_theme'' ''dark'' None True ''Strict'')"
proof -
  have h: "CHR '';'' \<notin> set ''site_theme''" "CHR '';'' \<notin> set ''dark''" "CHR '';'' \<notin> set ''Strict''"
    by simp_all
  have a: "has_expires (cookieString example_env ''site_theme'' ''dark'' (Some 365) True ''Strict'')"
    using setCookie_expires_iff_days_truthy[OF h, of example_env "Some 365" True "[]"] by simp
  have b: "\<not> has_expires (cookieString example_env ''site_theme'' ''dark'' None True ''Strict'')"
    using setCookie_expires_iff_days_truthy[OF h, of example_env None True "[]"] by simp
  show ?thesis
    by (intro conjI h a b)
qed

text \<open>A supplied \<^verbatim>\<open>days\<close> of 0 gives a record with no \<open>expires\<close> attribute.\<close>

theorem days_zero_has_no_expires:
  "cookieString example_env ''site_theme'' ''dark'' (Some 0) True ''Strict'' =
     ''site_theme=dark; path=/; Secure; SameSite=Strict'' \<and>
   \<not> has_expires (cookieString example_env ''site_theme'' ''dark'' (Some 0) True ''Strict'')"
  by code_simp

subsection \<open>Reading the jar through \<^verbatim>\<open>getCookie\<close>\<close>











subsection \<open>The jar keeps its cookies well-formed\<close>












subsection \<open>Writing, then reading\<close>











section \<open>Properties of the consent controller\<close>

subsection \<open>What each routine leaves alone\<close>

lemma new_log_append: "console st' = console st @ xs \<Longrightarrow> new_log st st' = xs"
  by (simp add: new_log_def)

lemma applyTheme_frame:
  "applyTheme theme st = (r, st') \<Longrightarrow>
     console st' = console st \<and> preferences st' = preferences st \<and> cookies st' = cookies st"
  by (auto simp: applyTheme_def Let_def split: sum.splits option.splits)

text \<open>\<^verbatim>\<open>applyTheme\<close> throws exactly on a theme with ASCII whitespace.\<close>

lemma applyTheme_completes_iff:
  "fst (applyTheme theme st) = None \<longleftrightarrow> \<not> list_ex is_ascii_whitespace theme"
  by (auto simp: applyTheme_def Let_def classList_add_def is_ascii_whitespace_def list_ex_iff
      split: sum.splits option.splits)

lemma setLanguage_frame:
  "console (setLanguage env l st) = console st \<and> preferences (setLanguage env l st) = preferences st"
  by (simp add: setLanguage_def write_cookie_def)

lemma setFontSize_frame:
  "console (setFontSize env l st) = console st \<and> preferences (setFontSize env l st) = preferences st"
  by (simp add: setFontSize_def write_cookie_def)

lemma loadUserPreferences_frame:
  "console (loadUserPreferences env st) = console st \<and>
   preferences (loadUserPreferences env st) = preferences st"
  by (simp add: loadUserPreferences_def Let_def setLanguage_frame setFontSize_frame
      split: option.splits)

lemma saveConsent_frame:
  "console (saveConsent env st) = console st \<and> preferences (saveConsent env st) = preferences st"
  by (simp add: saveConsent_def write_cookie_def Let_def)

lemma set_display_frame:
  "console (set_display i v st) = console st \<and> preferences (set_display i v st) = preferences st"
  by (simp add: set_display_def split: option.splits)


subsection \<open>The console entries of the enable routines\<close>

lemma enableFunctionalCookies_log:
  assumes "enableFunctionalCookies env st = (r, st')"
  shows "console st' = console st @ [functional_enabled] \<and> preferences st' = preferences st"
proof -
  define st1 where "st1 = console_log ''Functional cookies enabled'' [] st"
  have c1: "console st1 = console st @ [functional_enabled]" "preferences st1 = preferences st"
    by (simp_all add: st1_def console_log_def)
  show ?thesis
  proof (cases "read_cookie st1 ''site_theme''")
    case None
    with assms c1 show ?thesis
      by (auto simp: enableFunctionalCookies_def st1_def[symmetric] seq_def lift_def
          loadUserPreferences_frame)
  next
    case (Some t)
    show ?thesis
    proof (cases "t = []")
      case True
      with Some assms c1 show ?thesis
        by (auto simp: enableFunctionalCookies_def st1_def[symmetric] seq_def lift_def
            loadUserPreferences_frame)
    next
      case False
      obtain r2 st2 where a: "applyTheme t st1 = (r2, st2)"
        by (cases "applyTheme t st1")
      from applyTheme_frame[OF a] c1
      have "console st2 = console st @ [functional_enabled]" "preferences st2 = preferences st"
        by simp_all
      with Some False a assms show ?thesis
        by (cases r2)
          (auto simp: enableFunctionalCookies_def st1_def[symmetric] seq_def lift_def
            loadUserPreferences_frame)
    qed
  qed
qed

lemma enableFunctionalCookies_completes:
  assumes "stored_theme_applies st"
  shows "fst (enableFunctionalCookies env st) = None"
proof -
  define st1 where "st1 = console_log ''Functional cookies enabled'' [] st"
  have r: "read_cookie st1 ''site_theme'' = read_cookie st ''site_theme''"
    by (simp add: st1_def console_log_def read_cookie_def)
  show ?thesis
  proof (cases "read_cookie st ''site_theme''")
    case None
    with r show ?thesis
      by (simp add: enableFunctionalCookies_def st1_def[symmetric] seq_def lift_def)
  next
    case (Some t)
    with assms have "fst (applyTheme t st1) = None"
      by (simp add: applyTheme_completes_iff stored_theme_applies_def)
    then obtain st2 where "applyTheme t st1 = (None, st2)"
      by (cases "applyTheme t st1") auto
    with Some r show ?thesis
      by (simp add: enableFunctionalCookies_def st1_def[symmetric] seq_def lift_def)
  qed
qed

lemma enableAnalytics_log:
  "console (enableAnalytics env st) =
     console st @ analytics_enabled # (if flag st ANALYTICS then [page_view env] else []) \<and>
   preferences (enableAnalytics env st) = preferences st"
  by (simp add: enableAnalytics_def trackPageView_def gtag_def console_log_def flag_def page_view_def)

lemma enableMarketing_log:
  "console (enableMarketing env st) = console st @ [marketing_enabled] \<and>
   preferences (enableMarketing env st) = preferences st"
  by (simp add: enableMarketing_def gtag_def console_log_def)

lemma applyCookieSettings_preferences:
  assumes "applyCookieSettings env st = (r, st')"
  shows "preferences st' = preferences st"
proof -
  obtain r1 st1 where f:
    "(if flag st FUNCTIONAL then enableFunctionalCookies env st else (None, st)) = (r1, st1)"
    by (cases "if flag st FUNCTIONAL then enableFunctionalCookies env st else (None, st)")
  then have p1: "preferences st1 = preferences st"
    using enableFunctionalCookies_log[of env st r1 st1] by (auto split: if_splits)
  show ?thesis
  proof (cases r1)
    case None
    with assms f p1 show ?thesis
      by (auto simp: applyCookieSettings_def seq_def enableAnalytics_log enableMarketing_log
          split: if_splits)
  next
    case (Some e)
    with assms f p1 show ?thesis
      by (auto simp: applyCookieSettings_def seq_def)
  qed
qed

lemma applyCookieSettings_log:
  assumes "applyCookieSettings env st = (None, st')"
  shows "new_log st st' =
           (if flag st FUNCTIONAL then [functional_enabled] else []) @
           (if flag st ANALYTICS then [analytics_enabled, page_view env] else []) @
           (if flag st MARKETING then [marketing_enabled] else []) \<and>
         preferences st' = preferences st"
proof -
  obtain r1 st1 where f:
    "(if flag st FUNCTIONAL then enableFunctionalCookies env st else (None, st)) = (r1, st1)"
    by (cases "if flag st FUNCTIONAL then enableFunctionalCookies env st else (None, st)")
  have r1: "r1 = None"
    using assms f by (cases r1) (auto simp: applyCookieSettings_def seq_def)
  have c1: "console st1 = console st @ (if flag st FUNCTIONAL then [functional_enabled] else [])"
    and p1: "preferences st1 = preferences st"
    using f enableFunctionalCookies_log[of env st r1 st1] by (auto split: if_splits)
  define st2 where "st2 = (if flag st1 ANALYTICS then enableAnalytics env st1 else st1)"
  have c2: "console st2 =
      console st1 @ (if flag st ANALYTICS then [analytics_enabled, page_view env] else [])"
    and p2: "preferences st2 = preferences st"
    using p1 enableAnalytics_log[of env st1] by (auto simp: st2_def flag_def)
  have st': "st' = (if flag st2 MARKETING then enableMarketing env st2 else st2)"
    using assms f r1 by (auto simp: applyCookieSettings_def seq_def st2_def split: if_splits)
  have c3: "console st' = console st2 @ (if flag st MARKETING then [marketing_enabled] else [])"
    and p3: "preferences st' = preferences st"
    using p2 enableMarketing_log[of env st2] by (auto simp: st' flag_def)
  from c1 c2 c3 have "console st' = console st @
           ((if flag st FUNCTIONAL then [functional_enabled] else []) @
           (if flag st ANALYTICS then [analytics_enabled, page_view env] else []) @
           (if flag st MARKETING then [marketing_enabled] else []))"
    by simp
  from new_log_append[OF this] p3 show ?thesis by simp
qed

lemma applyCookieSettings_completes:
  assumes "\<not> flag st FUNCTIONAL \<or> stored_theme_applies st"
  shows "fst (applyCookieSettings env st) = None"
proof (cases "flag st FUNCTIONAL")
  case True
  with assms have "fst (enableFunctionalCookies env st) = None"
    by (simp add: enableFunctionalCookies_completes)
  then obtain st1 where "enableFunctionalCookies env st = (None, st1)"
    by (cases "enableFunctionalCookies env st") auto
  with True show ?thesis
    by (simp add: applyCookieSettings_def seq_def)
next
  case False
  then show ?thesis
    by (simp add: applyCookieSettings_def seq_def)
qed

lemma applyCookieSettings_gate_iff:
  assumes "applyCookieSettings env st = (None, st')"
  shows "(functional_enabled \<in> set (new_log st st')) = flag st FUNCTIONAL \<and>
         (analytics_enabled \<in> set (new_log st st')) = flag st ANALYTICS \<and>
         (marketing_enabled \<in> set (new_log st st')) = flag st MARKETING"
  using applyCookieSettings_log[OF assms] by (simp add: page_view_def)

lemma applyCookieSettings_all_off:
  assumes "\<not> flag st FUNCTIONAL" "\<not> flag st ANALYTICS" "\<not> flag st MARKETING"
  shows "applyCookieSettings env st = (None, st)"
  using assms by (simp add: applyCookieSettings_def seq_def)

lemma rejectAll_result:
  "\<exists>rej. rejectAll env st = (None, rej) \<and> new_log st rej = [] \<and>
         applyCookieSettings env rej = (None, rej)"
proof -
  define st1 where "st1 = saveConsent env (st\<lparr>preferences :=
             [(NECESSARY, JBool True), (FUNCTIONAL, JBool False),
              (ANALYTICS, JBool False), (MARKETING, JBool False)]\<rparr>)"
  define rej where "rej = hideConsentBanner st1"
  have p1: "preferences st1 = [(NECESSARY, JBool True), (FUNCTIONAL, JBool False),
              (ANALYTICS, JBool False), (MARKETING, JBool False)]"
    and c1: "console st1 = console st"
    by (simp_all add: st1_def saveConsent_frame)
  then have off1: "\<not> flag st1 FUNCTIONAL" "\<not> flag st1 ANALYTICS" "\<not> flag st1 MARKETING"
    by (simp_all add: flag_def obj_get_def)
  have pr: "preferences rej = preferences st1" and cr: "console rej = console st"
    by (simp_all add: rej_def hideConsentBanner_def set_display_frame c1)
  then have offr: "\<not> flag rej FUNCTIONAL" "\<not> flag rej ANALYTICS" "\<not> flag rej MARKETING"
    using off1 by (simp_all add: flag_def)
  have "rejectAll env st = (None, rej)"
    by (simp add: rejectAll_def seq_def lift_def st1_def[symmetric]
        applyCookieSettings_all_off[OF off1] rej_def)
  moreover have "new_log st rej = []"
    by (simp add: new_log_def cr)
  moreover have "applyCookieSettings env rej = (None, rej)"
    by (rule applyCookieSettings_all_off[OF offr])
  ultimately show ?thesis by blast
qed

lemma acceptAll_result:
  assumes "acceptAll env st = (None, acc)"
  shows "new_log st acc = [functional_enabled, analytics_enabled, page_view env, marketing_enabled] \<and>
         flag acc FUNCTIONAL \<and> flag acc ANALYTICS \<and> flag acc MARKETING"
proof -
  define st1 where "st1 = saveConsent env (st\<lparr>preferences :=
             [(NECESSARY, JBool True), (FUNCTIONAL, JBool True),
              (ANALYTICS, JBool True), (MARKETING, JBool True)]\<rparr>)"
  have p1: "preferences st1 = [(NECESSARY, JBool True), (FUNCTIONAL, JBool True),
              (ANALYTICS, JBool True), (MARKETING, JBool True)]"
    and c1: "console st1 = console st"
    by (simp_all add: st1_def saveConsent_frame)
  then have on1: "flag st1 FUNCTIONAL" "flag st1 ANALYTICS" "flag st1 MARKETING"
    by (simp_all add: flag_def obj_get_def)
  obtain r st2 where a: "applyCookieSettings env st1 = (r, st2)"
    by (cases "applyCookieSettings env st1")
  with assms have r: "r = None" and acc: "acc = hideConsentBanner st2"
    by (cases r; simp add: acceptAll_def seq_def lift_def st1_def[symmetric])+
  from applyCookieSettings_log[OF a[unfolded r]] on1
  have l: "new_log st1 st2 = [functional_enabled, analytics_enabled, page_view env, marketing_enabled]"
    and p2: "preferences st2 = preferences st1"
    by simp_all
  have "console acc = console st2" "preferences acc = preferences st1"
    by (simp_all add: acc hideConsentBanner_def set_display_frame p2)
  with l c1 on1 show ?thesis
    by (simp add: new_log_def flag_def)
qed

text \<open>
  What the gates do when nothing is thrown.  Whenever \<^verbatim>\<open>applyCookieSettings\<close> returns, it
  has entered the enable routine of an optional category if and only if that category's
  flag is truthy; it returns whenever the functional flag is falsy or the stored theme,
  if any, has no ASCII whitespace.  \<^verbatim>\<open>rejectAll\<close> always returns and enters none of the
  three routines, and neither does a following \<^verbatim>\<open>applyCookieSettings\<close>.  When \<^verbatim>\<open>acceptAll\<close>
  returns, it has entered all three, and so has a following \<^verbatim>\<open>applyCookieSettings\<close> that
  returns.
\<close>

lemma applyCookieSettings_gating:
  "(applyCookieSettings env st = (None, st') \<longrightarrow>
      (functional_enabled \<in> set (new_log st st')) = flag st FUNCTIONAL \<and>
      (analytics_enabled \<in> set (new_log st st')) = flag st ANALYTICS \<and>
      (marketing_enabled \<in> set (new_log st st')) = flag st MARKETING) \<and>
   (\<not> flag st FUNCTIONAL \<or> stored_theme_applies st \<longrightarrow>
      fst (applyCookieSettings env st) = None) \<and>
   (\<exists>rej. rejectAll env st = (None, rej) \<and> new_log st rej = [] \<and>
          applyCookieSettings env rej = (None, rej)) \<and>
   (acceptAll env st = (None, acc) \<longrightarrow>
      new_log st acc = [functional_enabled, analytics_enabled, page_view env, marketing_enabled] \<and>
      (applyCookieSettings env acc = (None, acc') \<longrightarrow>
         new_log acc acc' =
           [functional_enabled, analytics_enabled, page_view env, marketing_enabled]))"
proof (intro conjI impI)
  assume "applyCookieSettings env st = (None, st')"
  from applyCookieSettings_gate_iff[OF this]
  show "(functional_enabled \<in> set (new_log st st')) = flag st FUNCTIONAL"
    and "(analytics_enabled \<in> set (new_log st st')) = flag st ANALYTICS"
    and "(marketing_enabled \<in> set (new_log st st')) = flag st MARKETING"
    by simp_all
next
  assume "\<not> flag st FUNCTIONAL \<or> stored_theme_applies st"
  then show "fst (applyCookieSettings env st) = None"
    by (rule applyCookieSettings_completes)
next
  show "\<exists>rej. rejectAll env st = (None, rej) \<and> new_log st rej = [] \<and>
          applyCookieSettings env rej = (None, rej)"
    by (rule rejectAll_result)
next
  assume a: "acceptAll env st = (None, acc)"
  from acceptAll_result[OF a]
  show "new_log st acc = [functional_enabled, analytics_enabled, page_view env, marketing_enabled]"
    by simp
  assume "applyCookieSettings env acc = (None, acc')"
  from applyCookieSettings_log[OF this] acceptAll_result[OF a]
  show "new_log acc acc' = [functional_enabled, analytics_enabled, page_view env, marketing_enabled]"
    by simp
qed

lemma applyCookieSettings_gating_example:
  "applyCookieSettings example_env functional_only =
     (None, snd (applyCookieSettings example_env functional_only)) \<and>
   stored_theme_applies functional_only \<and>
   functional_enabled \<in>
     set (new_log functional_only (snd (applyCookieSettings example_env functional_only))) \<and>
   analytics_enabled \<notin>
     set (new_log functional_only (snd (applyCookieSettings example_env functional_only))) \<and>
   acceptAll example_env functional_only = (None, snd (acceptAll example_env functional_only)) \<and>
   new_log functional_only (snd (acceptAll example_env functional_only)) =
     [functional_enabled, analytics_enabled, page_view example_env, marketing_enabled] \<and>
   applyCookieSettings example_env (snd (acceptAll example_env functional_only)) =
     (None, snd (applyCookieSettings example_env (snd (acceptAll example_env functional_only)))) \<and>
   new_log (snd (acceptAll example_env functional_only))
     (snd (applyCookieSettings example_env (snd (acceptAll example_env functional_only)))) =
     [functional_enabled, analytics_enabled, page_view example_env, marketing_enabled]"
proof -
  have "fst (applyCookieSettings example_env functional_only) = None"
    by code_simp
  then have h1: "applyCookieSettings example_env functional_only =
     (None, snd (applyCookieSettings example_env functional_only))"
    by (simp add: prod_eq_iff)
  have h2: "stored_theme_applies functional_only"
    by code_simp
  have fl: "flag functional_only FUNCTIONAL" "\<not> flag functional_only ANALYTICS"
    by code_simp+
  have "fst (acceptAll example_env functional_only) = None"
    by code_simp
  then have h3: "acceptAll example_env functional_only =
     (None, snd (acceptAll example_env functional_only))"
    by (simp add: prod_eq_iff)
  have "fst (applyCookieSettings example_env (snd (acceptAll example_env functional_only))) = None"
    by code_simp
  then have h4: "applyCookieSettings example_env (snd (acceptAll example_env functional_only)) =
     (None, snd (applyCookieSettings example_env (snd (acceptAll example_env functional_only))))"
    by (simp add: prod_eq_iff)
  note t = applyCookieSettings_gating[where env = example_env and st = functional_only
      and st' = "snd (applyCookieSettings example_env functional_only)"
      and acc = "snd (acceptAll example_env functional_only)"
      and acc' = "snd (applyCookieSettings example_env (snd (acceptAll example_env functional_only)))"]
  from t h1 fl have c1: "functional_enabled \<in>
     set (new_log functional_only (snd (applyCookieSettings example_env functional_only)))"
    and c2: "analytics_enabled \<notin>
     set (new_log functional_only (snd (applyCookieSettings example_env functional_only)))"
    by blast+
  from t h3 have c3: "new_log functional_only (snd (acceptAll example_env functional_only)) =
     [functional_enabled, analytics_enabled, page_view example_env, marketing_enabled]"
    by blast
  from t h3 h4 have c4: "new_log (snd (acceptAll example_env functional_only))
     (snd (applyCookieSettings example_env (snd (acceptAll example_env functional_only)))) =
     [functional_enabled, analytics_enabled, page_view example_env, marketing_enabled]"
    by blast
  show ?thesis
    by (intro conjI h1 h2 c1 c2 h3 c3 h4 c4)
qed

text \<open>
  Claim C4 fails on the code.  With a stored theme that contains a space, \<^verbatim>\<open>acceptAll\<close>
  sets every flag, enters the functional routine and aborts there: \<^verbatim>\<open>applyTheme\<close> passes
  the stored theme to \<^verbatim>\<open>classList.add\<close> unguarded (line 213), which throws
  \<open>InvalidCharacterError\<close>.  The analytics and marketing routines are never entered,
  although their flags are true.
\<close>

theorem acceptAll_aborts_on_spaced_theme:
  "fst (acceptAll example_env spaced_theme_stored) = Some InvalidCharacterError \<and>
   flag (snd (acceptAll example_env spaced_theme_stored)) ANALYTICS \<and>
   flag (snd (acceptAll example_env spaced_theme_stored)) MARKETING \<and>
   new_log spaced_theme_stored (snd (acceptAll example_env spaced_theme_stored)) =
     [functional_enabled]"
  by code_simp

subsection \<open>The functional gate on theme, language and font size\<close>

lemma cookieString_365:
  "cookieString env name val (Some 365) True ''Strict'' = cookie_record_365 env name val"
  by (simp add: cookieString_parts expires_part_def secure_part_def cookie_record_365_def)

lemma write_cookie_365:
  "write_cookie env name val (Some 365) st =
     st\<lparr>cookies := document_cookie_set env (cookie_record_365 env name val) (cookies st)\<rparr>"
  by (simp add: write_cookie_def setCookie_def cookieString_365)

lemma saveTheme_applies:
  assumes "flag st FUNCTIONAL" "\<not> list_ex is_ascii_whitespace theme"
  shows "\<exists>st'. saveTheme env theme st = (None, st') \<and>
           cookies st' = document_cookie_set env (cookie_record_365 env ''site_theme'' theme) (cookies st) \<and>
           (\<exists>ts. body_className st' = serialize_tokens ts \<and> theme @ ''-theme'' \<in> set ts) \<and>
           (\<forall>sel. elements st ''theme-selector'' = Some sel \<longrightarrow>
                  elements st' ''theme-selector'' = Some (assign_value theme sel))"
proof -
  define st1 where "st1 = write_cookie env ''site_theme'' theme (Some 365) st"
  have ws: "\<not> list_ex is_ascii_whitespace (theme @ ''-theme'')"
    using assms(2) by (simp add: list_ex_iff is_ascii_whitespace_def)
  define ts where "ts = class_tokens (remove_theme_classes (body_className st1))"
  define ts' where "ts' = (if theme @ ''-theme'' \<in> set ts then ts else ts @ [theme @ ''-theme''])"
  have add: "classList_add (theme @ ''-theme'') (remove_theme_classes (body_className st1)) =
      Inr (serialize_tokens ts')"
    using ws by (simp add: classList_add_def ts_def ts'_def Let_def)
  have mem: "theme @ ''-theme'' \<in> set ts'"
    by (simp add: ts'_def)
  have c: "cookies st1 = document_cookie_set env (cookie_record_365 env ''site_theme'' theme) (cookies st)"
    and e: "elements st1 = elements st"
    by (simp_all add: st1_def write_cookie_365)
  show ?thesis
    using assms(1) add mem c e
    by (cases "elements st ''theme-selector''")
      (auto simp: saveTheme_def seq_def lift_def st1_def[symmetric] applyTheme_def Let_def)
qed

lemma saveTheme_writes_cookie:
  assumes "flag st FUNCTIONAL"
  shows "cookies (snd (saveTheme env theme st)) =
           document_cookie_set env (cookie_record_365 env ''site_theme'' theme) (cookies st)"
proof -
  define st1 where "st1 = write_cookie env ''site_theme'' theme (Some 365) st"
  obtain r st2 where a: "applyTheme theme st1 = (r, st2)"
    by (cases "applyTheme theme st1")
  from applyTheme_frame[OF a] have "cookies st2 = cookies st1"
    by simp
  with assms a show ?thesis
    by (simp add: saveTheme_def seq_def lift_def st1_def[symmetric])
      (simp add: st1_def write_cookie_365)
qed

text \<open>
  The functional gate, and what the three setters do behind it when nothing is thrown.
  With a falsy functional flag, \<^verbatim>\<open>saveTheme\<close>, \<^verbatim>\<open>setLanguage\<close> and \<^verbatim>\<open>setFontSize\<close> return and
  leave the whole state, cookies and document, as it was.  With a truthy flag, each
  assigns the 365-day record of its cookie to \<^verbatim>\<open>document.cookie\<close>; \<^verbatim>\<open>setLanguage\<close> stores
  the language in the document, \<^verbatim>\<open>setFontSize\<close> assigns the size to the font size of the
  style, which keeps its old value when the size is no font size; \<^verbatim>\<open>saveTheme\<close>, for a
  theme with no ASCII whitespace, leaves the body with the class \<open>theme-theme\<close> and assigns
  the theme to the theme selector, if there is one.
\<close>

lemma functional_flag_gates_preference_setters:
  "(\<not> flag st FUNCTIONAL \<longrightarrow>
      saveTheme env theme st = (None, st) \<and> setLanguage env lang st = st \<and>
      setFontSize env sz st = st) \<and>
   (flag st FUNCTIONAL \<longrightarrow>
      setLanguage env lang st =
        st\<lparr>cookies := document_cookie_set env (cookie_record_365 env ''preferred_language'' lang) (cookies st),
           html_lang := lang\<rparr> \<and>
      setFontSize env sz st =
        st\<lparr>cookies := document_cookie_set env (cookie_record_365 env ''font_size'' sz) (cookies st),
           html_style_fontSize := assign_fontSize env sz (html_style_fontSize st)\<rparr> \<and>
      cookies (snd (saveTheme env theme st)) =
        document_cookie_set env (cookie_record_365 env ''site_theme'' theme) (cookies st) \<and>
      (\<not> list_ex is_ascii_whitespace theme \<longrightarrow>
         (\<exists>st'. saveTheme env theme st = (None, st') \<and>
            (\<exists>ts. body_className st' = serialize_tokens ts \<and> theme @ ''-theme'' \<in> set ts) \<and>
            (\<forall>sel. elements st ''theme-selector'' = Some sel \<longrightarrow>
                   elements st' ''theme-selector'' = Some (assign_value theme sel)))))"
proof (intro conjI impI)
  assume "\<not> flag st FUNCTIONAL"
  then show "saveTheme env theme st = (None, st)" "setLanguage env lang st = st"
    "setFontSize env sz st = st"
    by (simp_all add: saveTheme_def setLanguage_def setFontSize_def)
next
  assume f: "flag st FUNCTIONAL"
  then show "setLanguage env lang st =
        st\<lparr>cookies := document_cookie_set env (cookie_record_365 env ''preferred_language'' lang) (cookies st),
           html_lang := lang\<rparr>"
    by (simp add: setLanguage_def write_cookie_365)
  from f show "setFontSize env sz st =
        st\<lparr>cookies := document_cookie_set env (cookie_record_365 env ''font_size'' sz) (cookies st),
           html_style_fontSize := assign_fontSize env sz (html_style_fontSize st)\<rparr>"
    by (simp add: setFontSize_def write_cookie_365)
  from f show "cookies (snd (saveTheme env theme st)) =
        document_cookie_set env (cookie_record_365 env ''site_theme'' theme) (cookies st)"
    by (rule saveTheme_writes_cookie)
  assume "\<not> list_ex is_ascii_whitespace theme"
  from saveTheme_applies[OF f this]
  show "\<exists>st'. saveTheme env theme st = (None, st') \<and>
            (\<exists>ts. body_className st' = serialize_tokens ts \<and> theme @ ''-theme'' \<in> set ts) \<and>
            (\<forall>sel. elements st ''theme-selector'' = Some sel \<longrightarrow>
                   elements st' ''theme-selector'' = Some (assign_value theme sel))"
    by blast
qed

lemma functional_flag_gates_preference_setters_example:
  "saveTheme example_env ''dark'' analytics_only = (None, analytics_only) \<and>
   setLanguage example_env ''it'' analytics_only = analytics_only \<and>
   setFontSize example_env ''18px'' analytics_only = analytics_only \<and>
   html_lang (setLanguage example_env ''it'' functional_only) = ''it'' \<and>
   cookies (setLanguage example_env ''it'' functional_only) = [(''preferred_language'', ''it'')] \<and>
   html_style_fontSize (setFontSize example_env ''18px'' functional_only) = ''18px'' \<and>
   html_style_fontSize (setFontSize example_env ''1.50EM'' functional_only) = ''1.5em'' \<and>
   html_style_fontSize (setFontSize example_env ''huge'' functional_only) = [] \<and>
   cookies (setFontSize example_env ''huge'' functional_only) = [(''font_size'', ''huge'')] \<and>
   fst (saveTheme example_env ''dark'' functional_only) = None \<and>
   cookies (snd (saveTheme example_env ''dark'' functional_only)) = [(''site_theme'', ''dark'')] \<and>
   body_className (snd (saveTheme example_env ''dark'' functional_only)) = ''dark-theme''"
proof -
  have off: "\<not> flag analytics_only FUNCTIONAL"
    by code_simp
  note a = functional_flag_gates_preference_setters[where st = analytics_only
      and env = example_env and theme = "''dark''" and lang = "''it''" and sz = "''18px''"]
  from a off have a1: "saveTheme example_env ''dark'' analytics_only = (None, analytics_only)"
    and a2: "setLanguage example_env ''it'' analytics_only = analytics_only"
    and a3: "setFontSize example_env ''18px'' analytics_only = analytics_only"
    by blast+
  have f: "html_lang (setLanguage example_env ''it'' functional_only) = ''it'' \<and>
   cookies (setLanguage example_env ''it'' functional_only) = [(''preferred_language'', ''it'')] \<and>
   html_style_fontSize (setFontSize example_env ''18px'' functional_only) = ''18px'' \<and>
   html_style_fontSize (setFontSize example_env ''1.50EM'' functional_only) = ''1.5em'' \<and>
   html_style_fontSize (setFontSize example_env ''huge'' functional_only) = [] \<and>
   cookies (setFontSize example_env ''huge'' functional_only) = [(''font_size'', ''huge'')] \<and>
   fst (saveTheme example_env ''dark'' functional_only) = None \<and>
   cookies (snd (saveTheme example_env ''dark'' functional_only)) = [(''site_theme'', ''dark'')] \<and>
   body_className (snd (saveTheme example_env ''dark'' functional_only)) = ''dark-theme''"
    by code_simp
  from a1 a2 a3 f show ?thesis
    by (intro conjI) simp_all
qed

text \<open>
  Claim C8 fails on the code.  With a truthy functional flag and a theme that contains a
  space, \<^verbatim>\<open>saveTheme\<close> writes the \<open>site_theme\<close> cookie and then throws: \<^verbatim>\<open>applyTheme\<close> passes
  the theme to \<^verbatim>\<open>classList.add\<close> unguarded (line 213), which throws
  \<open>InvalidCharacterError\<close>.  The value is persisted and not applied to the document: the
  body has no theme class.
\<close>

theorem saveTheme_spaced_theme_not_applied:
  "flag functional_only FUNCTIONAL \<and>
   fst (saveTheme example_env ''solar flare'' functional_only) = Some InvalidCharacterError \<and>
   body_className (snd (saveTheme example_env ''solar flare'' functional_only)) = [] \<and>
   cookies (snd (saveTheme example_env ''solar flare'' functional_only)) =
     [(''site_theme'', ''solar flare'')]"
  by code_simp

subsection \<open>The two global entry points\<close>

text \<open>
  Claim C3, as the code has it.  With a controller in place, \<^verbatim>\<open>window.trackEvent\<close> is
  gated by the analytics flag: when it is truthy the event is logged and, if \<^verbatim>\<open>gtag\<close>
  exists, forwarded; when it is falsy nothing changes.  \<^verbatim>\<open>window.saveUserPreference\<close> is
  gated by the functional flag: when it is truthy the cookie record, with \<^verbatim>\<open>days\<close>
  defaulting to 365, is assigned to \<^verbatim>\<open>document.cookie\<close>; when it is falsy nothing changes.
\<close>

theorem global_entry_points_gating:
  "(flag st ANALYTICS \<longrightarrow>
      window_trackEvent env eventName eventData (Controller st) =
        Controller
          (st\<lparr>console := console st @ [Log ''Event tracked:'' [JString eventName, event_data eventData]],
              gtag_calls :=
                (if gtag_defined env
                 then gtag_calls st @ [[JString ''event'', JString eventName, event_data eventData]]
                 else gtag_calls st)\<rparr>)) \<and>
   (\<not> flag st ANALYTICS \<longrightarrow>
      window_trackEvent env eventName eventData (Controller st) = Controller st) \<and>
   (flag st FUNCTIONAL \<longrightarrow>
      window_saveUserPreference env key val days (Controller st) =
        Controller
          (st\<lparr>cookies :=
                document_cookie_set env
                  (cookieString env key val (Some (case days of None \<Rightarrow> 365 | Some d \<Rightarrow> d)) True ''Strict'')
                  (cookies st)\<rparr>)) \<and>
   (\<not> flag st FUNCTIONAL \<longrightarrow>
      window_saveUserPreference env key val days (Controller st) = Controller st)"
  by (simp add: trackEvent_def gtag_def console_log_def event_data_def Let_def write_cookie_def
      setCookie_def)

theorem global_entry_points_gating_witness:
  "flag analytics_only ANALYTICS \<and> \<not> flag analytics_only FUNCTIONAL \<and>
   window_trackEvent example_env ''click'' None (Controller analytics_only) =
     Controller
       (analytics_only
          \<lparr>console := console analytics_only @ [Log ''Event tracked:'' [JString ''click'', event_data None]],
           gtag_calls :=
             (if gtag_defined example_env
              then gtag_calls analytics_only @ [[JString ''event'', JString ''click'', event_data None]]
              else gtag_calls analytics_only)\<rparr>) \<and>
   window_saveUserPreference example_env ''site_theme'' ''dark'' None (Controller analytics_only) =
     Controller analytics_only"
proof -
  have on: "flag analytics_only ANALYTICS"
    by code_simp
  have off: "\<not> flag analytics_only FUNCTIONAL"
    by code_simp
  note t = global_entry_points_gating[where st = analytics_only and env = example_env
      and eventName = "''click''" and eventData = None and key = "''site_theme''"
      and val = "''dark''" and days = None]
  from t on have c1: "window_trackEvent example_env ''click'' None (Controller analytics_only) =
     Controller
       (analytics_only
          \<lparr>console := console analytics_only @ [Log ''Event tracked:'' [JString ''click'', event_data None]],
           gtag_calls :=
             (if gtag_defined example_env
              then gtag_calls analytics_only @ [[JString ''event'', JString ''click'', event_data None]]
              else gtag_calls analytics_only)\<rparr>)"
    by blast
  from t off have c2:
    "window_saveUserPreference example_env ''site_theme'' ''dark'' None (Controller analytics_only) =
     Controller analytics_only"
    by blast
  show ?thesis
    by (intro conjI on off c1 c2)
qed

text \<open>
  The claim pairs the flags the other way round.  With only the functional flag set,
  \<^verbatim>\<open>window.trackEvent\<close> does nothing; with only the analytics flag set,
  \<^verbatim>\<open>window.saveUserPreference\<close> does nothing.
\<close>

theorem global_gates_swapped_counterexample:
  "flag functional_only FUNCTIONAL \<and>
   window_trackEvent example_env ''click'' None (Controller functional_only) =
     Controller functional_only \<and>
   flag analytics_only ANALYTICS \<and>
   window_saveUserPreference example_env ''site_theme'' ''dark'' None (Controller analytics_only) =
     Controller analytics_only"
  by (simp add: functional_only_def analytics_only_def trackEvent_def flag_def obj_get_def)

text \<open>
  Claim C10.  While \<^verbatim>\<open>window.cookieConsent\<close> is undefined, \<^verbatim>\<open>window.trackEvent\<close> and
  \<^verbatim>\<open>window.saveUserPreference\<close> return and change nothing: no cookie is written, nothing
  is logged or forwarded.
\<close>

theorem globals_before_construction_are_noops:
  "window_trackEvent env eventName eventData (NoController p) = NoController p \<and>
   window_saveUserPreference env key val days (NoController p) = NoController p"
  by simp

subsection \<open>Loading stored preferences\<close>




subsection \<open>The \<open>necessary\<close> category\<close>

text \<open>
  \<^verbatim>\<open>loadPreferences\<close> keeps every category for which the stored object has no entry.
\<close>

lemma fold_obj_put_other:
  "k \<notin> fst ` set es \<Longrightarrow>
   map_of (fold (\<lambda>(k', x) ob. obj_put k' x ob) es base) k = map_of base k"
  by (induction es arbitrary: base) (auto simp: obj_put_def update_conv')

lemma obj_spread_other:
  "k \<notin> fst ` set (own_entries v) \<Longrightarrow> obj_get (obj_spread base v) k = obj_get base k"
  by (simp add: obj_spread_def obj_get_def fold_obj_put_other)

lemma loadPreferences_keeps_absent_key:
  assumes "\<And>prefs parsed. read_cookie st ''cookie_preferences'' = Some prefs \<Longrightarrow>
             JSON_parse env prefs = Some parsed \<Longrightarrow> k \<notin> fst ` set (own_entries parsed)"
  shows "obj_get (preferences (loadPreferences env st)) k = obj_get (preferences st) k"
  using assms
  by (auto simp: loadPreferences_def obj_spread_other split: option.splits)

text \<open>The constructor and the three consent actions leave \<open>necessary\<close> true.\<close>

lemma necessary_kept_by_actions:
  "obj_get (preferences (new_controller p)) NECESSARY = Some (JBool True) \<and>
   obj_get (preferences (snd (acceptAll env st))) NECESSARY = Some (JBool True) \<and>
   obj_get (preferences (snd (rejectAll env st))) NECESSARY = Some (JBool True) \<and>
   (obj_get (preferences st) NECESSARY = Some (JBool True) \<longrightarrow>
      obj_get (preferences (snd (saveCustomPreferences env st))) NECESSARY = Some (JBool True))"
proof -
  have seq_prefs: "preferences (snd (seq (lift (saveConsent env)) (seq (applyCookieSettings env) g) s)) =
      preferences s"
    if g: "\<And>x. preferences (snd (g x)) = preferences x" for g s
  proof -
    obtain r s2 where a: "applyCookieSettings env (saveConsent env s) = (r, s2)"
      by (cases "applyCookieSettings env (saveConsent env s)")
    from applyCookieSettings_preferences[OF a]
    have "preferences s2 = preferences s"
      by (simp add: saveConsent_frame)
    with a g[of s2] show ?thesis
      by (cases r) (simp_all add: seq_def lift_def)
  qed
  have hide: "preferences (snd (lift hideConsentBanner x)) = preferences x" for x
    by (simp add: lift_def hideConsentBanner_def set_display_frame)
  have hide_close: "preferences (snd (seq (lift hideConsentBanner) (lift closeSettingsModal) x)) =
      preferences x" for x
    by (simp add: seq_def lift_def hideConsentBanner_def closeSettingsModal_def set_display_frame)
  show ?thesis
    by (simp add: new_controller_def default_preferences_def acceptAll_def rejectAll_def
        saveCustomPreferences_def Let_def seq_prefs[OF hide] seq_prefs[OF hide_close]
        obj_get_def obj_put_def update_conv')
qed

text \<open>
  Claim C1 fails on the code.  With the consent marker present and the stored object
  \<^verbatim>\<open>{"necessary":false}\<close>, the constructor returns with \<open>necessary\<close> false:
  \<^verbatim>\<open>loadPreferences\<close> spreads the stored object over the preferences and does not pin
  \<open>necessary\<close>, which the constructor and \<^verbatim>\<open>rejectAll\<close> mark as always true.
\<close>

theorem tampered_cookie_unsets_necessary:
  "fst (CookieConsent_new example_env tampered_page) = None \<and>
   obj_get (preferences (snd (CookieConsent_new example_env tampered_page))) NECESSARY =
     Some (JBool False)"
  by code_simp

subsection \<open>Missing DOM elements\<close>

lemma openSettingsModal_needs_checkboxes:
  assumes "elements st ''cookie-settings-modal'' = Some modal"
    and "elements st ''functional-cookies'' = None \<or>
         elements st ''analytics-cookies'' = None \<or>
         elements st ''marketing-cookies'' = None"
  shows "fst (openSettingsModal st) = Some TypeError"
  using assms
  by (auto simp: openSettingsModal_def seq_def set_checked_def lift_def split: option.splits)

text \<open>
  Claim C2 fails on the code.  With the settings modal present and its checkboxes
  absent, \<^verbatim>\<open>openSettingsModal\<close> throws a \<^verbatim>\<open>TypeError\<close>: it assigns to \<^verbatim>\<open>.checked\<close> of the
  result of \<^verbatim>\<open>getElementById\<close> without the guard that \<^verbatim>\<open>saveCustomPreferences\<close> has.
\<close>

theorem openSettingsModal_missing_checkbox_throws:
  "elements modal_without_checkboxes ''cookie-settings-modal'' \<noteq> None \<and>
   elements modal_without_checkboxes ''functional-cookies'' = None \<and>
   fst (openSettingsModal modal_without_checkboxes) = Some TypeError"
  by (simp add: modal_without_checkboxes_def openSettingsModal_def seq_def set_checked_def)

end
